theory Spec2Isabelle
  imports Complex_Main "HOL-Library.Word" "HOL-Library.Sublist"
begin

section \<open>JavaScript strings\<close>

text \<open>
  A JavaScript string is a sequence of UTF-16 code units. \<open>lit\<close> turns an ASCII
  literal of the source into such a sequence; a template literal is the concatenation
  of its literal pieces and its interpolated strings.
\<close>

type_synonym jstring = "16 word list"

definition lit :: "string \<Rightarrow> jstring" where
  "lit s = map of_char s"

text \<open>\<^verbatim>\<open>s.startsWith(m)\<close>\<close>

definition startsWith :: "jstring \<Rightarrow> jstring \<Rightarrow> bool" where
  "startsWith s m = (take (length m) s = m)"

text \<open>
  \<^verbatim>\<open>s.substring(a, b)\<close>: both indices are clamped to \<open>0 .. length s\<close> and swapped
  when the first is the larger one.
\<close>

definition substring :: "jstring \<Rightarrow> int \<Rightarrow> int \<Rightarrow> jstring" where
  "substring s a b =
     (let n = int (length s);
          a' = min (max a 0) n;
          b' = min (max b 0) n;
          lo = min a' b';
          hi = max a' b'
      in take (nat (hi - lo)) (drop (nat lo) s))"

text \<open>
  The code units that \<^verbatim>\<open>trim()\<close> removes: ECMAScript WhiteSpace (TAB, VT, FF, SP,
  NBSP, ZWNBSP and the Unicode space separators) and LineTerminator (LF, CR, LS, PS).
\<close>

definition is_space :: "16 word \<Rightarrow> bool" where
  "is_space c =
     (c = 0x0009 \<or> c = 0x000A \<or> c = 0x000B \<or> c = 0x000C \<or> c = 0x000D \<or> c = 0x0020 \<or>
      c = 0x00A0 \<or> c = 0x1680 \<or> (0x2000 \<le> c \<and> c \<le> 0x200A) \<or> c = 0x2028 \<or>
      c = 0x2029 \<or> c = 0x202F \<or> c = 0x205F \<or> c = 0x3000 \<or> c = 0xFEFF)"

definition trim :: "jstring \<Rightarrow> jstring" where
  "trim s = rev (dropWhile is_space (rev (dropWhile is_space s)))"

text \<open>
  \<^verbatim>\<open>s.split(sep)\<close> for a separator of one code unit: the pieces between the
  separators, so that a string without the separator is its own single piece.
\<close>

fun split :: "16 word \<Rightarrow> jstring \<Rightarrow> jstring list" where
  "split sep [] = [[]]"
| "split sep (c # cs) =
     (if c = sep then [] # split sep cs
      else (case split sep cs of
              [] \<Rightarrow> [[c]]
            | p # ps \<Rightarrow> (c # p) # ps))"

text \<open>\<^verbatim>\<open>xs[i]\<close>: \<^verbatim>\<open>undefined\<close> (here \<open>None\<close>) out of range.\<close>

definition at_index :: "'a list \<Rightarrow> nat \<Rightarrow> 'a option" where
  "at_index xs i = (if i < length xs then Some (xs ! i) else None)"

text \<open>\<^verbatim>\<open>xs.join(sep)\<close> on an array of strings.\<close>

fun join :: "jstring \<Rightarrow> jstring list \<Rightarrow> jstring" where
  "join sep [] = []"
| "join sep [x] = x"
| "join sep (x # y # ys) = x @ sep @ join sep (y # ys)"

section \<open>Fence stripping\<close>

text \<open>
  Lines 101-103 and 191-193 of \<^verbatim>\<open>server.js\<close>:
  \<^verbatim>\<open>if (html.startsWith('```html')) { html = html.substring(7, html.length - 3).trim(); }\<close>
\<close>

definition fence_marker :: jstring where
  "fence_marker = lit ''```html''"

definition closing_fence :: jstring where
  "closing_fence = lit ''```''"

definition strip_fence :: "jstring \<Rightarrow> jstring" where
  "strip_fence html =
     (if startsWith html fence_marker
      then trim (substring html 7 (int (length html) - 3))
      else html)"

section \<open>Requests, payloads and the outside world\<close>

text \<open>
  A value of the parsed JSON request body; \<open>JUndefined\<close> is what reading an absent
  field gives. JSON numbers are taken as rationals, which include every finite double.
\<close>

datatype json =
    JUndefined
  | JNull
  | JBool bool
  | JNum rat
  | JStr jstring
  | JArr "json list"
  | JObj "(jstring \<times> json) list"

text \<open>
  The operator \<^verbatim>\<open>===\<close>. Two primitives are equal when they have the same type and
  value. An array or object is equal only to itself; the program compares request
  fields with a literal or with an environment string, never an object with itself.
\<close>

fun strict_equal :: "json \<Rightarrow> json \<Rightarrow> bool" where
  "strict_equal JUndefined JUndefined = True"
| "strict_equal JNull JNull = True"
| "strict_equal (JBool a) (JBool b) = (a = b)"
| "strict_equal (JNum a) (JNum b) = (a = b)"
| "strict_equal (JStr a) (JStr b) = (a = b)"
| "strict_equal _ _ = False"

text \<open>The body sent to the evaluation URL (lines 217-221).\<close>

record payload =
  email :: json
  task :: json
  round :: json
  nonce :: json
  repo_url :: jstring
  commit_sha :: jstring
  pages_url :: jstring

record attachment =
  name :: jstring
  url :: jstring

text \<open>
  The request body. \<open>secret\<close>, \<open>round\<close>, \<open>email\<close> and \<open>nonce\<close> are only compared or
  echoed, so they are any JSON value; the fields the program interpolates into strings
  have the types of the BuildRequest data model. \<open>attachments\<close> and \<open>checks\<close> may be
  absent (\<open>None\<close>).
\<close>

record request =
  secret :: json
  task :: jstring
  round :: json
  brief :: jstring
  attachments :: "attachment list option"
  checks :: "jstring list option"
  email :: json
  nonce :: json
  evaluation_url :: jstring

text \<open>What \<^verbatim>\<open>getContent\<close> resolves to for a file.\<close>

record existing_file =
  content :: jstring
  sha :: jstring

text \<open>
  The calls to the outside: Octokit (\<^verbatim>\<open>users.getAuthenticated\<close>, \<^verbatim>\<open>repos.*\<close>), the
  generative model (model name and prompt) and \<^verbatim>\<open>axios.post\<close>, each with the
  arguments the source passes.
\<close>

datatype call =
    GetAuthenticated
  | GenerateContent jstring jstring
  | CreateForAuthenticatedUser jstring bool
  | CreateOrUpdateFileContents jstring jstring jstring jstring jstring "jstring option"
  | CreatePagesSite jstring jstring jstring jstring
  | GetContent jstring jstring jstring
  | GetCommit jstring jstring jstring
  | AxiosPost jstring payload

datatype error = TypeError | Rejected call

text \<open>
  What \<^verbatim>\<open>console.error\<close> and \<^verbatim>\<open>console.warn\<close> print: the invalid secret (line 38),
  a failed notification attempt with its number and the announced delay in seconds
  (line 232), the final notification failure (line 237), the caught error (line 241).
  The informational \<^verbatim>\<open>console.log\<close> lines are not part of the trace.
\<close>

datatype console =
    InvalidSecret
  | NotifyAttemptFailed nat nat
  | NotifyFailed
  | BuildError error

text \<open>
  The observable events of a run, in order: an outside call being started, the HTTP
  response (its status), a timer wait (milliseconds), a console line.
\<close>

datatype event =
    Call call
  | Respond nat
  | SetTimeout nat
  | Console console

text \<open>
  The outside world answers a call from the whole history up to and including that
  call, so an answer may depend on every earlier call and on the attempt number.
  \<open>None\<close> and \<open>False\<close> are a rejected promise. The two Buffer conversions
  (\<^verbatim>\<open>Buffer.from(s, 'base64').toString('utf-8')\<close> and
  \<^verbatim>\<open>Buffer.from(s).toString('base64')\<close>) are library functions taken as parameters.
\<close>

record world =
  getAuthenticated :: "event list \<Rightarrow> jstring option"
  generateContent :: "event list \<Rightarrow> jstring option"
  createForAuthenticatedUser :: "event list \<Rightarrow> bool"
  createOrUpdateFileContents :: "event list \<Rightarrow> bool"
  createPagesSite :: "event list \<Rightarrow> bool"
  getContent :: "event list \<Rightarrow> existing_file option"
  getCommit :: "event list \<Rightarrow> jstring option"
  axios_post :: "event list \<Rightarrow> bool"
  base64_decode :: "jstring \<Rightarrow> jstring"
  base64_encode :: "jstring \<Rightarrow> jstring"

section \<open>Sequencing with exceptions\<close>

text \<open>
  A step takes the trace so far and returns the extended trace with either a value or
  the thrown error; \<open>and_then\<close> skips the rest after a throw, as the \<^verbatim>\<open>try\<close> block does.
\<close>

type_synonym 'a act = "event list \<Rightarrow> (error + 'a) \<times> event list"

definition succeed :: "'a \<Rightarrow> 'a act" where
  "succeed x tr = (Inr x, tr)"

definition lift :: "error + 'a \<Rightarrow> 'a act" where
  "lift r tr = (r, tr)"

definition emit :: "event \<Rightarrow> unit act" where
  "emit ev tr = (Inr (), tr @ [ev])"

definition and_then :: "'a act \<Rightarrow> ('a \<Rightarrow> 'b act) \<Rightarrow> 'b act" where
  "and_then m f tr =
     (case m tr of
        (Inl e, tr') \<Rightarrow> (Inl e, tr')
      | (Inr x, tr') \<Rightarrow> f x tr')"

text \<open>\<^verbatim>\<open>await\<close> of an outside call that resolves to a value, or to nothing of interest.\<close>

definition await_value :: "call \<Rightarrow> (event list \<Rightarrow> 'a option) \<Rightarrow> 'a act" where
  "await_value c answer tr =
     (let tr' = tr @ [Call c]
      in case answer tr' of
           None \<Rightarrow> (Inl (Rejected c), tr')
         | Some v \<Rightarrow> (Inr v, tr'))"

definition await_unit :: "call \<Rightarrow> (event list \<Rightarrow> bool) \<Rightarrow> unit act" where
  "await_unit c answer tr =
     (let tr' = tr @ [Call c]
      in if answer tr' then (Inr (), tr') else (Inl (Rejected c), tr'))"

section \<open>Round 1: build and deploy (lines 60-154)\<close>

text \<open>
  Lines 64-70. \<^verbatim>\<open>firstAttachment.url.split(',')[1]\<close> is \<^verbatim>\<open>undefined\<close> when the url has
  no comma, and \<^verbatim>\<open>Buffer.from(undefined, 'base64')\<close> throws a TypeError.
\<close>

definition attachmentContent :: "world \<Rightarrow> attachment list \<Rightarrow> error + jstring" where
  \<open>attachmentContent w atts =
     (case atts of
        [] \<Rightarrow> Inr (lit ''No attachments.'')
      | firstAttachment # _ \<Rightarrow>
          (case at_index (split 0x2C (url firstAttachment)) 1 of
             None \<Rightarrow> Inl TypeError
           | Some encoded \<Rightarrow>
               Inr (lit ''The project uses an attachment named '' @ [0x27] @
                    name firstAttachment @ [0x27] @
                    lit ''. Its content is:\<newline>"""\<newline>'' @
                    base64_decode w encoded @
                    lit ''\<newline>"""'')))\<close>

text \<open>\<^verbatim>\<open>body.checks.join('\n')\<close>: a TypeError when \<^verbatim>\<open>checks\<close> is absent.\<close>

definition checksText :: "jstring list option \<Rightarrow> error + jstring" where
  "checksText cs =
     (case cs of
        None \<Rightarrow> Inl TypeError
      | Some lines \<Rightarrow> Inr (join [0x0A] lines))"

text \<open>The template literal of lines 72-93.\<close>

definition llmPrompt :: "jstring \<Rightarrow> jstring \<Rightarrow> jstring \<Rightarrow> jstring" where
  \<open>llmPrompt briefText attachmentText checksJoined =
     lit ''\<newline>'' @
     lit ''You are an expert front-end web developer specializing in creating clean, efficient, and self-contained HTML files.\<newline>'' @
     lit ''## TASK\<newline>'' @
     lit ''Your task is to create a single, self-contained `index.html` file based on the user's brief.\<newline>'' @
     lit ''## CONSTRAINTS\<newline>'' @
     lit ''1. You MUST generate a single `index.html` file.\<newline>'' @
     lit ''2. All CSS and JavaScript code MUST be embedded directly within the HTML file using `<style>` and `<script>` tags.\<newline>'' @
     lit ''3. Do not use any external file paths. External libraries from CDNs are allowed if requested.\<newline>'' @
     lit ''## INPUT & CONTEXT\<newline>'' @
     lit ''**Brief:**\<newline>'' @
     lit ''"""\<newline>'' @
     briefText @
     lit ''\<newline>'' @
     lit ''"""\<newline>'' @
     lit ''**Attachments:**\<newline>'' @
     attachmentText @
     lit ''\<newline>'' @
     lit ''**Evaluation Checks:**\<newline>'' @
     lit ''The code will be evaluated against these checks:\<newline>'' @
     lit ''"""\<newline>'' @
     checksJoined @
     lit ''\<newline>'' @
     lit ''"""\<newline>'' @
     lit ''## OUTPUT\<newline>'' @
     lit ''Provide ONLY the complete HTML code for the `index.html` file, enclosed in a single markdown code block.''\<close>

text \<open>The license text of lines 111-131.\<close>

definition licenseContent :: jstring where
  \<open>licenseContent =
     lit ''MIT License\<newline>'' @
     lit ''\<newline>'' @
     lit ''Copyright (c) 2025 [Chenchu Vinay Boga]\<newline>'' @
     lit ''\<newline>'' @
     lit ''Permission is hereby granted, free of charge, to any person obtaining a copy\<newline>'' @
     lit ''of this software and associated documentation files (the "Software"), to deal\<newline>'' @
     lit ''in the Software without restriction, including without limitation the rights\<newline>'' @
     lit ''to use, copy, modify, merge, publish, distribute, sublicense, and/or sell\<newline>'' @
     lit ''copies of the Software, and to permit persons to whom the Software is\<newline>'' @
     lit ''furnished to do so, subject to the following conditions:\<newline>'' @
     lit ''\<newline>'' @
     lit ''The above copyright notice and this permission notice shall be included in all\<newline>'' @
     lit ''copies or substantial portions of the Software.\<newline>'' @
     lit ''\<newline>'' @
     lit ''THE SOFTWARE IS PROVIDED "AS IS", WITHOUT WARRANTY OF ANY KIND, EXPRESS OR\<newline>'' @
     lit ''IMPLIED, INCLUDING BUT NOT LIMITED TO THE WARRANTIES OF MERCHANTABILITY,\<newline>'' @
     lit ''FITNESS FOR A PARTICULAR PURPOSE AND NONINFRINGEMENT. IN NO EVENT SHALL THE\<newline>'' @
     lit ''AUTHORS OR COPYRIGHT HOLDERS BE LIABLE FOR ANY CLAIM, DAMAGES OR OTHER\<newline>'' @
     lit ''LIABILITY, WHETHER IN AN ACTION OF CONTRACT, TORT OR OTHERWISE, ARISING FROM,\<newline>'' @
     lit ''OUT OF OR IN CONNECTION WITH THE SOFTWARE OR THE USE OR OTHER DEALINGS IN THE\<newline>'' @
     lit ''SOFTWARE.''\<close>

text \<open>The readme of line 133.\<close>

definition readmeContent :: "jstring \<Rightarrow> jstring \<Rightarrow> jstring" where
  \<open>readmeContent repoName briefText =
     lit ''# '' @ repoName @
     lit ''\<newline>\<newline>## Summary\<newline>\<newline>'' @
     lit ''This project was automatically generated to fulfill the following brief: *'' @
     briefText @
     lit ''*\<newline>\<newline>## Setup & Usage\<newline>\<newline>'' @
     lit ''This is a static web page. Simply open the deployed GitHub Pages URL to view and use the application.'' @
     lit ''\<newline>\<newline>## Code Explanation\<newline>\<newline>'' @
     lit ''The application is contained within a single `index.html` file. '' @
     lit ''All styling is provided via a `<style>` tag and all logic is contained within a `<script>` tag.'' @
     lit ''\<newline>\<newline>## License\<newline>\<newline>'' @
     lit ''This project is licensed under the MIT License.''\<close>

definition commitMessage :: jstring where
  "commitMessage = lit ''Initial commit: Add application files''"

text \<open>
  Lines 105-154: create the repository, push the three files, enable GitHub Pages.
\<close>

definition publish_initial :: "world \<Rightarrow> request \<Rightarrow> jstring \<Rightarrow> jstring \<Rightarrow> unit act" where
  "publish_initial w body login generatedHtml =
     (let repoName = request.task body;
          briefText = request.brief body
      in
      and_then (await_unit (CreateForAuthenticatedUser repoName False)
                  (createForAuthenticatedUser w)) (\<lambda>_.
      and_then (await_unit
                  (CreateOrUpdateFileContents login repoName (lit ''index.html'')
                     commitMessage (base64_encode w generatedHtml) None)
                  (createOrUpdateFileContents w)) (\<lambda>_.
      and_then (await_unit
                  (CreateOrUpdateFileContents login repoName (lit ''README.md'')
                     commitMessage (base64_encode w (readmeContent repoName briefText)) None)
                  (createOrUpdateFileContents w)) (\<lambda>_.
      and_then (await_unit
                  (CreateOrUpdateFileContents login repoName (lit ''LICENSE'')
                     commitMessage (base64_encode w licenseContent) None)
                  (createOrUpdateFileContents w)) (\<lambda>_.
      await_unit (CreatePagesSite login repoName (lit ''main'') (lit ''/''))
        (createPagesSite w))))))"

text \<open>Lines 60-154: the prompt, the generation call, the fence stripping, the publishing.\<close>

definition round1 :: "world \<Rightarrow> request \<Rightarrow> jstring \<Rightarrow> unit act" where
  "round1 w body login =
     (let briefText = request.brief body;
          atts = (case request.attachments body of None \<Rightarrow> [] | Some xs \<Rightarrow> xs)
      in
      and_then (lift (attachmentContent w atts)) (\<lambda>attachmentText.
      and_then (lift (checksText (request.checks body))) (\<lambda>checksJoined.
      and_then (await_value
                  (GenerateContent (lit ''gemini-2.5-flash'')
                     (llmPrompt briefText attachmentText checksJoined))
                  (generateContent w)) (\<lambda>text.
      publish_initial w body login (strip_fence text)))))"

section \<open>Round 2: revise and redeploy (lines 155-202)\<close>

text \<open>The template literal of lines 164-183.\<close>

definition revisionPrompt :: "jstring \<Rightarrow> jstring \<Rightarrow> jstring" where
  \<open>revisionPrompt originalHtml briefText =
     lit ''\<newline>'' @
     lit ''You are an expert front-end web developer who is excellent at modifying and refactoring existing code to add new features.\<newline>'' @
     lit ''## TASK\<newline>'' @
     lit ''Your task is to modify the provided HTML code to implement a new feature described in the brief.\<newline>'' @
     lit ''## CONSTRAINTS\<newline>'' @
     lit ''1. You MUST return the complete, updated code for the single `index.html` file.\<newline>'' @
     lit ''2. All new CSS and JavaScript code must also be embedded directly within the HTML file.\<newline>'' @
     lit ''3. Ensure the original functionality still works correctly alongside the new feature.\<newline>'' @
     lit ''## INPUT & CONTEXT\<newline>'' @
     lit ''**Original Code:**\<newline>'' @
     lit ''This is the existing `index.html` file that you need to modify:\<newline>'' @
     lit ''```html\<newline>'' @
     originalHtml @
     lit ''\<newline>'' @
     lit ''```\<newline>'' @
     lit ''**New Brief for Revision:**\<newline>'' @
     lit ''"""\<newline>'' @
     briefText @
     lit ''\<newline>'' @
     lit ''"""\<newline>'' @
     lit ''## OUTPUT\<newline>'' @
     lit ''Provide ONLY the complete, updated HTML code for the `index.html` file, enclosed in a single markdown code block.''\<close>

definition round2 :: "world \<Rightarrow> request \<Rightarrow> jstring \<Rightarrow> unit act" where
  "round2 w body login =
     (let repoName = request.task body in
      and_then (await_value (GetContent login repoName (lit ''index.html''))
                  (getContent w)) (\<lambda>existingFile.
      let originalHtml = base64_decode w (content existingFile) in
      and_then (await_value
                  (GenerateContent (lit ''gemini-pro'')
                     (revisionPrompt originalHtml (request.brief body)))
                  (generateContent w)) (\<lambda>text.
      let updatedHtml = strip_fence text in
      await_unit
        (CreateOrUpdateFileContents login repoName (lit ''index.html'')
           (lit ''Feat: Update application based on round 2 brief'')
           (base64_encode w updatedHtml) (Some (sha existingFile)))
        (createOrUpdateFileContents w))))"

section \<open>After the round: commit, delay, notification (lines 204-238)\<close>

text \<open>
  The retry loop of lines 225-235, from attempt \<open>i\<close> on: the flag
  \<^verbatim>\<open>notificationSuccess\<close> and the trace.
\<close>

function notify :: "world \<Rightarrow> jstring \<Rightarrow> payload \<Rightarrow> nat \<Rightarrow> event list \<Rightarrow> bool \<times> event list" where
  "notify w dest p i tr =
     (if i < 4 then
        (if axios_post w (tr @ [Call (AxiosPost dest p)])
         then (True, tr @ [Call (AxiosPost dest p)])
         else notify w dest p (i + 1)
                (tr @ [Call (AxiosPost dest p),
                       Console (NotifyAttemptFailed (i + 1) (2 ^ i)),
                       SetTimeout (2 ^ i * 1000)]))
      else (False, tr))"
  by pat_completeness auto
termination
  by (relation "measure (\<lambda>(w, dest, p, i, tr). 4 - i)") auto

definition notification :: "world \<Rightarrow> jstring \<Rightarrow> payload \<Rightarrow> unit act" where
  "notification w dest p tr =
     (case notify w dest p 0 tr of
        (True, tr') \<Rightarrow> (Inr (), tr')
      | (False, tr') \<Rightarrow> (Inr (), tr' @ [Console NotifyFailed]))"

definition pagesUrl :: "jstring \<Rightarrow> jstring \<Rightarrow> jstring" where
  "pagesUrl login repoName =
     lit ''https://'' @ login @ lit ''.github.io/'' @ repoName @ lit ''/''"

definition repoUrl :: "jstring \<Rightarrow> jstring \<Rightarrow> jstring" where
  "repoUrl login repoName = lit ''https://github.com/'' @ login @ lit ''/'' @ repoName"

definition notificationPayload :: "request \<Rightarrow> jstring \<Rightarrow> jstring \<Rightarrow> payload" where
  "notificationPayload body login commitSha =
     \<lparr> payload.email = request.email body,
       payload.task = JStr (request.task body),
       payload.round = request.round body,
       payload.nonce = request.nonce body,
       repo_url = repoUrl login (request.task body),
       commit_sha = commitSha,
       pages_url = pagesUrl login (request.task body) \<rparr>"

definition post_round :: "world \<Rightarrow> request \<Rightarrow> jstring \<Rightarrow> unit act" where
  "post_round w body login =
     (let repoName = request.task body in
      and_then (await_value (GetCommit login repoName (lit ''heads/main''))
                  (getCommit w)) (\<lambda>commitSha.
      and_then (if strict_equal (request.round body) (JNum 1)
                then emit (SetTimeout 5000)
                else succeed ()) (\<lambda>_.
      notification w (evaluation_url body)
        (notificationPayload body login commitSha))))"

section \<open>processBuildRequest and the endpoint\<close>

text \<open>The dispatch on \<^verbatim>\<open>body.round\<close> (lines 60, 155, 202): no \<^verbatim>\<open>else\<close> branch.\<close>

definition round_steps :: "world \<Rightarrow> request \<Rightarrow> jstring \<Rightarrow> unit act" where
  "round_steps w body login =
     (if strict_equal (request.round body) (JNum 1) then round1 w body login
      else if strict_equal (request.round body) (JNum 2) then round2 w body login
      else succeed ())"

text \<open>The body of the \<^verbatim>\<open>try\<close> block (lines 57-238).\<close>

definition build_steps :: "world \<Rightarrow> request \<Rightarrow> unit act" where
  "build_steps w body =
     and_then (await_value GetAuthenticated (getAuthenticated w)) (\<lambda>login.
     and_then (round_steps w body login) (\<lambda>_.
     post_round w body login))"

text \<open>Lines 52-243: the \<^verbatim>\<open>catch\<close> only logs the error.\<close>

definition processBuildRequest :: "world \<Rightarrow> request \<Rightarrow> event list \<Rightarrow> event list" where
  "processBuildRequest w body tr =
     (case build_steps w body tr of
        (Inr _, tr') \<Rightarrow> tr'
      | (Inl e, tr') \<Rightarrow> tr' @ [Console (BuildError e)])"

text \<open>
  \<^verbatim>\<open>process.env.STUDENT_SECRET\<close>: a string, or \<^verbatim>\<open>undefined\<close> when the variable is
  not set.
\<close>

definition env_value :: "jstring option \<Rightarrow> json" where
  "env_value v = (case v of None \<Rightarrow> JUndefined | Some s \<Rightarrow> JStr s)"

text \<open>
  The handler of \<^verbatim>\<open>POST /api/build\<close> (lines 32-47): the events it produces after the
  trace \<open>tr\<close>, the background processing included.
\<close>

definition api_build :: "world \<Rightarrow> jstring option \<Rightarrow> request \<Rightarrow> event list \<Rightarrow> event list" where
  "api_build w student_secret body tr =
     (if \<not> strict_equal (secret body) (env_value student_secret)
      then tr @ [Console InvalidSecret, Respond 403]
      else processBuildRequest w body (tr @ [Respond 200]))"

section \<open>Observations on traces\<close>

text \<open>The kinds of event the properties below count.\<close>

fun outside_call :: "event \<Rightarrow> bool" where
  "outside_call (Call _) = True"
| "outside_call _ = False"

fun generation :: "event \<Rightarrow> bool" where
  "generation (Call (GenerateContent _ _)) = True"
| "generation _ = False"

fun repo_write :: "event \<Rightarrow> bool" where
  "repo_write (Call (CreateForAuthenticatedUser _ _)) = True"
| "repo_write (Call (CreateOrUpdateFileContents _ _ _ _ _ _)) = True"
| "repo_write (Call (CreatePagesSite _ _ _ _)) = True"
| "repo_write _ = False"

fun notify_call :: "event \<Rightarrow> bool" where
  "notify_call (Call (AxiosPost _ _)) = True"
| "notify_call _ = False"

text \<open>The events that can follow the round: the commit read, waits, posts, console lines.\<close>

fun after_round :: "event \<Rightarrow> bool" where
  "after_round (Call (GetCommit _ _ _)) = True"
| "after_round (Call (AxiosPost _ _)) = True"
| "after_round (Call _) = False"
| "after_round (Respond _) = False"
| "after_round (SetTimeout _) = True"
| "after_round (Console _) = True"

text \<open>A step that only appends events, each of them satisfying \<open>Q\<close>.\<close>

definition appends :: "(event \<Rightarrow> bool) \<Rightarrow> 'a act \<Rightarrow> bool" where
  "appends Q m = (\<forall>tr. \<exists>ev. snd (m tr) = tr @ ev \<and> (\<forall>e\<in>set ev. Q e))"

text \<open>
  What attempt \<open>i\<close> (counted from zero) leaves in the trace when it fails: the post, the
  warning with the attempt number \<open>i + 1\<close> and the announced \<open>2 ^ i\<close> seconds, the wait of
  \<open>2 ^ i\<close> seconds. \<open>failed_attempts dest p k\<close> is \<open>k\<close> failed attempts in a row, from
  attempt 0.
\<close>

definition failed_attempt :: "jstring \<Rightarrow> payload \<Rightarrow> nat \<Rightarrow> event list" where
  "failed_attempt dest p i =
     [Call (AxiosPost dest p),
      Console (NotifyAttemptFailed (i + 1) (2 ^ i)),
      SetTimeout (2 ^ i * 1000)]"

definition failed_attempts :: "jstring \<Rightarrow> payload \<Rightarrow> nat \<Rightarrow> event list" where
  "failed_attempts dest p k = concat (map (failed_attempt dest p) [0..<k])"

section \<open>A concrete request and a concrete world\<close>

text \<open>
  A request of the given round, and a world in which every call resolves except that
  the first \<open>n\<close> notification posts fail and that file writes fail when \<open>stale\<close> is set.
\<close>

definition demo_request :: "json \<Rightarrow> request" where
  "demo_request r =
     \<lparr> secret = JStr (lit ''s3cret''),
       task = lit ''todo-app'',
       round = r,
       brief = lit ''Build a todo list'',
       attachments = Some [\<lparr> name = lit ''data.csv'', url = lit ''data:text/csv;base64,YSxi'' \<rparr>],
       checks = Some [lit ''Page has a heading'', lit ''Items can be added''],
       email = JStr (lit ''dev@example.com''),
       nonce = JStr (lit ''n-1''),
       evaluation_url = lit ''https://example.com/notify'' \<rparr>"

definition demo_world :: "nat \<Rightarrow> bool \<Rightarrow> world" where
  "demo_world n stale =
     \<lparr> getAuthenticated = (\<lambda>_. Some (lit ''octo'')),
       generateContent = (\<lambda>_. Some (lit ''```html<p>hi</p>```'')),
       createForAuthenticatedUser = (\<lambda>_. True),
       createOrUpdateFileContents = (\<lambda>_. \<not> stale),
       createPagesSite = (\<lambda>_. True),
       getContent = (\<lambda>_. Some \<lparr> content = lit ''PHA+b2xkPC9wPg=='', sha = lit ''3b18e5'' \<rparr>),
       getCommit = (\<lambda>_. Some (lit ''9f2c1a'')),
       axios_post = (\<lambda>h. n < length (filter notify_call h)),
       base64_decode = (\<lambda>s. lit ''decoded:'' @ s),
       base64_encode = (\<lambda>s. lit ''encoded:'' @ s) \<rparr>"

section \<open>Auxiliary facts\<close>

subsection \<open>Strings\<close>

lemma length_fence_marker: "length fence_marker = 7"
  by (simp add: fence_marker_def lit_def)

lemma length_closing_fence: "length closing_fence = 3"
  by (simp add: closing_fence_def lit_def)

lemma substring_between:
  assumes "0 \<le> a" "a \<le> b" "b \<le> int (length s)"
  shows "substring s a b = take (nat (b - a)) (drop (nat a) s)"
proof -
  have "min (max a 0) (int (length s)) = a" "min (max b 0) (int (length s)) = b"
    using assms by simp_all
  then show ?thesis
    using assms by (simp add: substring_def Let_def)
qed

lemma strip_fence_wrapped:
  "strip_fence (fence_marker @ interior @ closing_fence) = trim interior"
proof -
  let ?s = "fence_marker @ interior @ closing_fence"
  have len: "int (length ?s) - 3 = 7 + int (length interior)"
    by (simp add: length_fence_marker length_closing_fence)
  have "substring ?s 7 (int (length ?s) - 3) =
          take (nat (7 + int (length interior) - 7)) (drop (nat 7) ?s)"
    unfolding len
    by (rule substring_between) (simp_all add: length_fence_marker length_closing_fence)
  also have "\<dots> = interior"
    by (simp add: length_fence_marker)
  finally have "substring ?s 7 (int (length ?s) - 3) = interior" .
  moreover have "startsWith ?s fence_marker"
    by (simp add: startsWith_def)
  ultimately show ?thesis
    by (simp only: strip_fence_def if_True)
qed

lemma strip_fence_other: "\<not> prefix fence_marker s \<Longrightarrow> strip_fence s = s"
proof -
  assume "\<not> prefix fence_marker s"
  then have "take (length fence_marker) s \<noteq> fence_marker"
    by (metis append_take_drop_id prefixI)
  then show ?thesis
    by (simp add: strip_fence_def startsWith_def)
qed

lemma trim_unchanged:
  assumes "s \<noteq> []" "\<not> is_space (hd s)" "\<not> is_space (last s)"
  shows "trim s = s"
proof -
  from assms have a: "dropWhile is_space s = s"
    by (cases s) simp_all
  from assms have "rev s \<noteq> []" "\<not> is_space (hd (rev s))"
    by (simp_all add: hd_rev)
  then have "dropWhile is_space (rev s) = rev s"
    by (cases "rev s") simp_all
  with a show ?thesis by (simp add: trim_def)
qed

lemma split_no_separator: "sep \<notin> set s \<Longrightarrow> split sep s = [s]"
  by (induction s) auto

lemma sublist_here: "sublist x (x @ z)"
  by (metis append_Nil sublist_appendI)

lemma sublist_skip: "sublist x z \<Longrightarrow> sublist x (y @ z)"
  unfolding sublist_def by (metis append.assoc)





lemma revisionPrompt_original: "sublist d (revisionPrompt d b)"
  unfolding revisionPrompt_def
  by ((rule sublist_here | rule sublist_skip)+)

lemma revisionPrompt_brief: "sublist b (revisionPrompt d b)"
  unfolding revisionPrompt_def
  by ((rule sublist_here | rule sublist_skip)+)

subsection \<open>Strict equality\<close>

lemma strict_equal_num: "strict_equal x (JNum n) \<longleftrightarrow> x = JNum n"
  by (cases x) auto

lemma strict_equal_undefined: "strict_equal x JUndefined \<longleftrightarrow> x = JUndefined"
  by (cases x) auto

lemma strict_equal_str: "strict_equal x (JStr s) \<longleftrightarrow> x = JStr s"
  by (cases x) auto

lemma strict_equal_env: "strict_equal x (env_value v) \<longleftrightarrow> x = env_value v"
  by (cases v) (simp_all add: env_value_def strict_equal_undefined strict_equal_str)

subsection \<open>Steps\<close>

lemmas act_defs =
  and_then_def lift_def await_value_def await_unit_def emit_def succeed_def Let_def

lemma and_then_Inr:
  "m tr = (Inr x, tr1) \<Longrightarrow> and_then m f tr = f x tr1"
  by (simp add: and_then_def)

lemma and_then_Inl:
  "m tr = (Inl e, tr1) \<Longrightarrow> and_then m f tr = (Inl e, tr1)"
  by (simp add: and_then_def)

lemma appendsI:
  "(\<And>tr. \<exists>ev. snd (m tr) = tr @ ev \<and> (\<forall>e\<in>set ev. Q e)) \<Longrightarrow> appends Q m"
  by (simp add: appends_def)

lemma appendsD:
  "appends Q m \<Longrightarrow> \<exists>ev. snd (m tr) = tr @ ev \<and> (\<forall>e\<in>set ev. Q e)"
  by (simp add: appends_def)

lemma appends_succeed: "appends Q (succeed x)"
  by (simp add: appends_def succeed_def)

lemma appends_lift: "appends Q (lift r)"
  by (simp add: appends_def lift_def)

lemma appends_emit: "Q ev \<Longrightarrow> appends Q (emit ev)"
  by (simp add: appends_def emit_def)

lemma appends_await_value: "Q (Call c) \<Longrightarrow> appends Q (await_value c answer)"
  by (auto simp: appends_def await_value_def Let_def split: option.splits)

lemma appends_await_unit: "Q (Call c) \<Longrightarrow> appends Q (await_unit c answer)"
  by (auto simp: appends_def await_unit_def Let_def)

lemma appends_and_then:
  assumes m: "appends Q m" and f: "\<And>x. appends Q (f x)"
  shows "appends Q (and_then m f)"
proof (rule appendsI)
  fix tr
  obtain r tr1 where mtr: "m tr = (r, tr1)" by (cases "m tr")
  from appendsD[OF m, of tr] mtr obtain ev1 where
    ev1: "tr1 = tr @ ev1" "\<forall>e\<in>set ev1. Q e" by auto
  show "\<exists>ev. snd (and_then m f tr) = tr @ ev \<and> (\<forall>e\<in>set ev. Q e)"
  proof (cases r)
    case (Inl e)
    with mtr ev1 show ?thesis by (simp add: and_then_def)
  next
    case (Inr x)
    from appendsD[OF f, of x tr1] obtain ev2 where
      "snd (f x tr1) = tr1 @ ev2" "\<forall>e\<in>set ev2. Q e" by auto
    with Inr mtr ev1 show ?thesis
      by (intro exI[of _ "ev1 @ ev2"]) (auto simp: and_then_def)
  qed
qed

lemma appends_if:
  "appends Q m \<Longrightarrow> appends Q n \<Longrightarrow> appends Q (if b then m else n)"
  by simp


subsection \<open>The retry loop\<close>

lemma failed_attempts_0: "failed_attempts dest p 0 = []"
  by (simp add: failed_attempts_def)

lemma failed_attempts_Suc:
  "failed_attempts dest p (Suc k) = failed_attempts dest p k @ failed_attempt dest p k"
  by (simp add: failed_attempts_def)

lemma failed_attempts_4:
  "failed_attempts dest p 4 =
     [Call (AxiosPost dest p), Console (NotifyAttemptFailed 1 1), SetTimeout 1000,
      Call (AxiosPost dest p), Console (NotifyAttemptFailed 2 2), SetTimeout 2000,
      Call (AxiosPost dest p), Console (NotifyAttemptFailed 3 4), SetTimeout 4000,
      Call (AxiosPost dest p), Console (NotifyAttemptFailed 4 8), SetTimeout 8000]"
proof -
  have "failed_attempts dest p (Suc (Suc (Suc (Suc 0)))) =
     [Call (AxiosPost dest p), Console (NotifyAttemptFailed 1 1), SetTimeout 1000,
      Call (AxiosPost dest p), Console (NotifyAttemptFailed 2 2), SetTimeout 2000,
      Call (AxiosPost dest p), Console (NotifyAttemptFailed 3 4), SetTimeout 4000,
      Call (AxiosPost dest p), Console (NotifyAttemptFailed 4 8), SetTimeout 8000]"
    by (simp add: failed_attempts_Suc failed_attempts_0 failed_attempt_def)
  then show ?thesis by (simp add: numeral_eq_Suc)
qed

lemma posts_failed_attempts:
  "length (filter notify_call (failed_attempts dest p n)) = n"
  by (induction n) (simp_all add: failed_attempts_0 failed_attempts_Suc failed_attempt_def)

lemma after_round_failed_attempts: "e \<in> set (failed_attempts dest p n) \<Longrightarrow> after_round e"
  by (induction n) (auto simp: failed_attempts_0 failed_attempts_Suc failed_attempt_def)

lemma notify_from:
  "i \<le> 4 \<Longrightarrow>
   \<exists>k. i \<le> k \<and> k \<le> 4 \<and>
       notify w dest p i (tr @ failed_attempts dest p i) =
         (k < 4, tr @ failed_attempts dest p k @
                 (if k < 4 then [Call (AxiosPost dest p)] else [])) \<and>
       (\<forall>j. i \<le> j \<and> j < k \<longrightarrow>
            \<not> axios_post w (tr @ failed_attempts dest p j @ [Call (AxiosPost dest p)])) \<and>
       (k < 4 \<longrightarrow> axios_post w (tr @ failed_attempts dest p k @ [Call (AxiosPost dest p)]))"
proof (induction "4 - i" arbitrary: i)
  case 0
  then have "i = 4" by simp
  then show ?case by (intro exI[of _ 4]) auto
next
  case (Suc n)
  then have i: "i < 4" by simp
  show ?case
  proof (cases "axios_post w (tr @ failed_attempts dest p i @ [Call (AxiosPost dest p)])")
    case True
    with i show ?thesis by (intro exI[of _ i]) auto
  next
    case False
    from Suc have "n = 4 - Suc i" "Suc i \<le> 4" by simp_all
    from Suc.hyps(1)[OF this] obtain k where k: "Suc i \<le> k" "k \<le> 4"
      "notify w dest p (Suc i) (tr @ failed_attempts dest p (Suc i)) =
         (k < 4, tr @ failed_attempts dest p k @
                 (if k < 4 then [Call (AxiosPost dest p)] else []))"
      "\<forall>j. Suc i \<le> j \<and> j < k \<longrightarrow>
           \<not> axios_post w (tr @ failed_attempts dest p j @ [Call (AxiosPost dest p)])"
      "k < 4 \<longrightarrow> axios_post w (tr @ failed_attempts dest p k @ [Call (AxiosPost dest p)])"
      by blast
    have step: "notify w dest p i (tr @ failed_attempts dest p i) =
        notify w dest p (Suc i) (tr @ failed_attempts dest p (Suc i))"
      using i False by (subst notify.simps) (simp add: failed_attempts_Suc failed_attempt_def)
    have "\<forall>j. i \<le> j \<and> j < k \<longrightarrow>
            \<not> axios_post w (tr @ failed_attempts dest p j @ [Call (AxiosPost dest p)])"
      using k(4) False by (metis Suc_leI le_neq_implies_less)
    with k step show ?thesis by (intro exI[of _ k]) auto
  qed
qed

lemma notification_shape:
  "\<exists>k\<le>4.
     notification w dest p tr =
       (Inr (), tr @ failed_attempts dest p k @
                (if k < 4 then [Call (AxiosPost dest p)] else [Console NotifyFailed])) \<and>
     (\<forall>j<k. \<not> axios_post w (tr @ failed_attempts dest p j @ [Call (AxiosPost dest p)])) \<and>
     (k < 4 \<longrightarrow> axios_post w (tr @ failed_attempts dest p k @ [Call (AxiosPost dest p)]))"
proof -
  from notify_from[of 0 w dest p tr] obtain k where k: "k \<le> 4"
    "notify w dest p 0 tr =
       (k < 4, tr @ failed_attempts dest p k @
               (if k < 4 then [Call (AxiosPost dest p)] else []))"
    "\<forall>j<k. \<not> axios_post w (tr @ failed_attempts dest p j @ [Call (AxiosPost dest p)])"
    "k < 4 \<longrightarrow> axios_post w (tr @ failed_attempts dest p k @ [Call (AxiosPost dest p)])"
    by (auto simp: failed_attempts_0)
  then show ?thesis
    by (intro exI[of _ k]) (auto simp: notification_def)
qed

lemma appends_notification: "appends after_round (notification w dest p)"
proof (rule appendsI)
  fix tr
  from notification_shape[of w dest p tr] obtain k where
    "notification w dest p tr =
       (Inr (), tr @ failed_attempts dest p k @
                (if k < 4 then [Call (AxiosPost dest p)] else [Console NotifyFailed]))"
    by blast
  then show "\<exists>ev. snd (notification w dest p tr) = tr @ ev \<and> (\<forall>e\<in>set ev. after_round e)"
    by (auto dest: after_round_failed_attempts)
qed

lemma appends_post_round: "appends after_round (post_round w body login)"
  unfolding post_round_def Let_def
  by (intro appends_and_then appends_await_value appends_if appends_emit appends_succeed
      appends_notification) simp_all

subsection \<open>The rounds\<close>




lemma attachmentContent_error: "attachmentContent w xs = Inl e \<Longrightarrow> e = TypeError"
  by (auto simp: attachmentContent_def split: list.splits option.splits)

lemma round1_type_error:
  assumes "request.checks body = None \<or>
           (\<exists>a rest. request.attachments body = Some (a # rest) \<and> 0x2C \<notin> set (url a))"
  shows "round1 w body login tr = (Inl TypeError, tr)"
proof (cases "\<exists>a rest. request.attachments body = Some (a # rest) \<and> 0x2C \<notin> set (url a)")
  case True
  then obtain a rest where "request.attachments body = Some (a # rest)" "0x2C \<notin> set (url a)"
    by blast
  then show ?thesis
    by (simp add: round1_def act_defs attachmentContent_def split_no_separator at_index_def)
next
  case False
  with assms have "request.checks body = None" by blast
  then show ?thesis
    by (auto simp: round1_def act_defs checksText_def split: sum.splits
        dest: attachmentContent_error)
qed

lemma processBuildRequest_after_round:
  assumes "getAuthenticated w (tr @ [Call GetAuthenticated]) = Some login"
    and "round_steps w body login (tr @ [Call GetAuthenticated]) = (Inr (), tr1)"
  shows "processBuildRequest w body tr =
           (case post_round w body login tr1 of
              (Inr _, tr') \<Rightarrow> tr'
            | (Inl e, tr') \<Rightarrow> tr' @ [Console (BuildError e)])"
  using assms
  by (simp add: processBuildRequest_def build_steps_def and_then_def await_value_def)

lemma processBuildRequest_round_failed:
  assumes "getAuthenticated w (tr @ [Call GetAuthenticated]) = Some login"
    and "round_steps w body login (tr @ [Call GetAuthenticated]) = (Inl e, tr1)"
  shows "processBuildRequest w body tr = tr1 @ [Console (BuildError e)]"
  using assms
  by (simp add: processBuildRequest_def build_steps_def and_then_def await_value_def)

lemma processBuildRequest_no_identity:
  assumes "getAuthenticated w (tr @ [Call GetAuthenticated]) = None"
  shows "processBuildRequest w body tr =
           tr @ [Call GetAuthenticated, Console (BuildError (Rejected GetAuthenticated))]"
  using assms
  by (simp add: processBuildRequest_def build_steps_def and_then_def await_value_def)

lemma post_round_only_after_round:
  "\<exists>ev. (case post_round w body login tr1 of
              (Inr _, tr') \<Rightarrow> tr'
            | (Inl e, tr') \<Rightarrow> tr' @ [Console (BuildError e)]) = tr1 @ ev \<and>
        (\<forall>e\<in>set ev. after_round e)"
proof -
  from appendsD[OF appends_post_round, of w body login tr1] obtain ev where
    ev: "snd (post_round w body login tr1) = tr1 @ ev" "\<forall>e\<in>set ev. after_round e" by blast
  obtain r t where rt: "post_round w body login tr1 = (r, t)" by (cases "post_round w body login tr1")
  show ?thesis
  proof (cases r)
    case (Inl e)
    with rt ev show ?thesis by (intro exI[of _ "ev @ [Console (BuildError e)]"]) auto
  next
    case (Inr u)
    with rt ev show ?thesis by (intro exI[of _ ev]) auto
  qed
qed

lemma post_round_shape:
  assumes "getCommit w (tr @ [Call (GetCommit login (request.task body) (lit ''heads/main''))]) = Some commitSha"
  shows "\<exists>k\<le>4.
     post_round w body login tr =
       (Inr (),
        tr @ [Call (GetCommit login (request.task body) (lit ''heads/main''))] @
        (if request.round body = JNum 1 then [SetTimeout 5000] else []) @
        failed_attempts (evaluation_url body) (notificationPayload body login commitSha) k @
        (if k < 4
         then [Call (AxiosPost (evaluation_url body) (notificationPayload body login commitSha))]
         else [Console NotifyFailed]))"
proof -
  let ?tr1 = "tr @ [Call (GetCommit login (request.task body) (lit ''heads/main''))] @
        (if request.round body = JNum 1 then [SetTimeout 5000] else [])"
  have "post_round w body login tr =
          notification w (evaluation_url body) (notificationPayload body login commitSha) ?tr1"
    using assms by (simp add: post_round_def act_defs strict_equal_num)
  moreover from notification_shape[of w "evaluation_url body"
      "notificationPayload body login commitSha" ?tr1]
  obtain k where "k \<le> 4"
    "notification w (evaluation_url body) (notificationPayload body login commitSha) ?tr1 =
       (Inr (), ?tr1 @ failed_attempts (evaluation_url body) (notificationPayload body login commitSha) k @
                (if k < 4
                 then [Call (AxiosPost (evaluation_url body) (notificationPayload body login commitSha))]
                 else [Console NotifyFailed]))"
    by blast
  ultimately show ?thesis
    by (intro exI[of _ k]) simp
qed





subsection \<open>Whole runs\<close>

lemma processBuildRequest_extends: "\<exists>ev. processBuildRequest w body tr = tr @ ev"
proof (cases "getAuthenticated w (tr @ [Call GetAuthenticated])")
  case None
  then show ?thesis by (simp add: processBuildRequest_no_identity)
next
  case (Some login)
  obtain r tr1 where r: "round_steps w body login (tr @ [Call GetAuthenticated]) = (r, tr1)"
    by (cases "round_steps w body login (tr @ [Call GetAuthenticated])")
  have "appends (\<lambda>_. True) (round_steps w body login)"
    unfolding round_steps_def round1_def round2_def publish_initial_def Let_def
    by (intro appends_if appends_and_then appends_await_unit appends_await_value
        appends_lift appends_succeed) simp_all
  from appendsD[OF this, of "tr @ [Call GetAuthenticated]"] r
  obtain ev1 where ev1: "tr1 = tr @ [Call GetAuthenticated] @ ev1" by auto
  show ?thesis
  proof (cases r)
    case (Inl e)
    with Some r ev1 show ?thesis by (simp add: processBuildRequest_round_failed)
  next
    case (Inr u)
    with Some r have "processBuildRequest w body tr =
           (case post_round w body login tr1 of
              (Inr _, tr') \<Rightarrow> tr'
            | (Inl e, tr') \<Rightarrow> tr' @ [Console (BuildError e)])"
      by (simp add: processBuildRequest_after_round)
    with post_round_only_after_round[of w body login tr1] ev1 show ?thesis by auto
  qed
qed


subsection \<open>The concrete world\<close>

lemma demo_world_post:
  "axios_post (demo_world n stale) (failed_attempts dest p j @ [Call (AxiosPost dest p)]) \<longleftrightarrow>
     n < j + 1"
  by (simp add: demo_world_def posts_failed_attempts)

lemma demo_split:
  "split 0x2C (lit ''data:text/csv;base64,YSxi'') = [lit ''data:text/csv;base64'', lit ''YSxi'']"
  by (simp add: lit_def)

lemma demo_round1:
  "fst (round1 (demo_world n False) (demo_request (JNum 1)) login t) = Inr ()"
  by (simp add: round1_def publish_initial_def act_defs demo_world_def demo_request_def
      attachmentContent_def checksText_def at_index_def demo_split)

lemma demo_round_steps1:
  "round_steps (demo_world n False) (demo_request (JNum 1)) login t =
     (Inr (), snd (round_steps (demo_world n False) (demo_request (JNum 1)) login t))"
proof -
  have "fst (round_steps (demo_world n False) (demo_request (JNum 1)) login t) = Inr ()"
    using demo_round1[of n login t] by (simp add: round_steps_def demo_request_def)
  then show ?thesis by (metis prod.collapse)
qed

section \<open>The properties\<close>

text \<open>
  C3, as found in the code. A response that begins with the fence marker and ends with
  the closing fence is reduced to what lies between them with leading and trailing
  whitespace removed (\<^verbatim>\<open>trim()\<close>), so the interior comes out unchanged exactly when it
  neither begins nor ends with whitespace. A response that does not begin with the
  marker is returned as it is.
\<close>

theorem strip_fence_trims_interior:
  "strip_fence (fence_marker @ interior @ closing_fence) = trim interior \<and>
   (interior \<noteq> [] \<and> \<not> is_space (hd interior) \<and> \<not> is_space (last interior) \<longrightarrow>
      strip_fence (fence_marker @ interior @ closing_fence) = interior) \<and>
   (\<not> prefix fence_marker s \<longrightarrow> strip_fence s = s)"
  by (simp add: strip_fence_wrapped trim_unchanged strip_fence_other)

theorem strip_fence_trims_interior_witness:
  "strip_fence (fence_marker @ lit ''\<newline><p>hi</p>\<newline>'' @ closing_fence) = lit ''<p>hi</p>'' \<and>
   strip_fence (fence_marker @ lit ''<p>hi</p>'' @ closing_fence) = lit ''<p>hi</p>'' \<and>
   \<not> prefix fence_marker (lit ''<p>hi</p>'') \<and>
   strip_fence (lit ''<p>hi</p>'') = lit ''<p>hi</p>''"
proof -
  have a: "trim (lit ''\<newline><p>hi</p>\<newline>'') = lit ''<p>hi</p>''"
    by (simp add: trim_def is_space_def lit_def)
  have b: "lit ''<p>hi</p>'' \<noteq> [] \<and> \<not> is_space (hd (lit ''<p>hi</p>'')) \<and>
           \<not> is_space (last (lit ''<p>hi</p>''))"
    by (simp add: is_space_def lit_def)
  have c: "\<not> prefix fence_marker (lit ''<p>hi</p>'')"
    by (simp add: fence_marker_def lit_def)
  note t1 = strip_fence_trims_interior[of "lit ''\<newline><p>hi</p>\<newline>''" "lit ''<p>hi</p>''"]
  note t2 = strip_fence_trims_interior[of "lit ''<p>hi</p>''" "lit ''<p>hi</p>''"]
  from t1 a have 1: "strip_fence (fence_marker @ lit ''\<newline><p>hi</p>\<newline>'' @ closing_fence) =
      lit ''<p>hi</p>''"
    by (simp only:)
  from t2 b have 2: "strip_fence (fence_marker @ lit ''<p>hi</p>'' @ closing_fence) = lit ''<p>hi</p>''"
    by blast
  from t1 c have 3: "strip_fence (lit ''<p>hi</p>'') = lit ''<p>hi</p>''"
    by blast
  from 1 2 3 c show ?thesis by (simp only: simp_thms)
qed

text \<open>
  C3, the unchanged interior: it does not hold for an interior that begins or ends with
  whitespace, such as the line break that follows the marker.
\<close>

theorem strip_fence_interior_counterexample:
  "strip_fence (fence_marker @ lit ''\<newline><p>hi</p>\<newline>'' @ closing_fence) \<noteq>
     lit ''\<newline><p>hi</p>\<newline>''"
  unfolding strip_fence_wrapped
  by (simp add: trim_def is_space_def lit_def)

text \<open>
  C4, at an endpoint that rejects every post. The delivery makes four posts and no fifth,
  with waits of 1000, 2000 and 4000 ms between them. After the fourth failed post it
  still prints the warning that announces a retry in 8 seconds and waits 8000 ms; only
  then does it print the final failure line, after which nothing follows.
\<close>

theorem notification_waits_after_last_attempt:
  "notification (demo_world 4 False) (lit ''https://example.com/notify'')
     (notificationPayload (demo_request (JNum 1)) (lit ''octo'') (lit ''9f2c1a'')) [] =
   (Inr (),
    [Call (AxiosPost (lit ''https://example.com/notify'')
       (notificationPayload (demo_request (JNum 1)) (lit ''octo'') (lit ''9f2c1a''))),
     Console (NotifyAttemptFailed 1 1), SetTimeout 1000,
     Call (AxiosPost (lit ''https://example.com/notify'')
       (notificationPayload (demo_request (JNum 1)) (lit ''octo'') (lit ''9f2c1a''))),
     Console (NotifyAttemptFailed 2 2), SetTimeout 2000,
     Call (AxiosPost (lit ''https://example.com/notify'')
       (notificationPayload (demo_request (JNum 1)) (lit ''octo'') (lit ''9f2c1a''))),
     Console (NotifyAttemptFailed 3 4), SetTimeout 4000,
     Call (AxiosPost (lit ''https://example.com/notify'')
       (notificationPayload (demo_request (JNum 1)) (lit ''octo'') (lit ''9f2c1a''))),
     Console (NotifyAttemptFailed 4 8), SetTimeout 8000,
     Console NotifyFailed])"
proof -
  let ?d = "lit ''https://example.com/notify''"
  let ?p = "notificationPayload (demo_request (JNum 1)) (lit ''octo'') (lit ''9f2c1a'')"
  from notification_shape[of "demo_world 4 False" ?d ?p "[]"]
  obtain m where m: "m \<le> 4"
    "notification (demo_world 4 False) ?d ?p [] =
       (Inr (), [] @ failed_attempts ?d ?p m @
                (if m < 4 then [Call (AxiosPost ?d ?p)] else [Console NotifyFailed]))"
    "m < 4 \<longrightarrow> axios_post (demo_world 4 False) ([] @ failed_attempts ?d ?p m @ [Call (AxiosPost ?d ?p)])"
    by blast
  from m(3) have "\<not> m < 4" by (auto simp: demo_world_post)
  with m(1) have "m = 4" by simp
  with m(2) show ?thesis by (simp add: failed_attempts_4)
qed

text \<open>
  C5. A request whose \<open>secret\<close> differs from the configured value is answered with
  status 403 after the error line, and the handler does nothing else: no outside call,
  so no generation, no publishing, no notification.
\<close>

theorem invalid_secret_rejected:
  assumes "secret body \<noteq> env_value student_secret"
  shows "api_build w student_secret body tr = tr @ [Console InvalidSecret, Respond 403] \<and>
         filter outside_call (api_build w student_secret body tr) = filter outside_call tr"
  using assms by (simp add: api_build_def strict_equal_env)

theorem invalid_secret_rejected_witness:
  "secret (demo_request (JNum 1)) \<noteq> env_value (Some (lit ''other'')) \<and>
   api_build (demo_world 0 False) (Some (lit ''other'')) (demo_request (JNum 1)) [] =
     [Console InvalidSecret, Respond 403]"
proof -
  have h: "secret (demo_request (JNum 1)) \<noteq> env_value (Some (lit ''other''))"
    by (simp add: demo_request_def env_value_def lit_def)
  from invalid_secret_rejected[OF h, of "demo_world 0 False" "[]"] h show ?thesis by simp
qed

text \<open>
  C6. For an accepted request the first event of the handler is the response with
  status 200: every call of the background processing, the generation and the
  publishing calls among them, comes later in the trace.
\<close>

theorem acknowledged_before_processing:
  assumes "secret body = env_value student_secret"
  shows "\<exists>rest. api_build w student_secret body tr = tr @ Respond 200 # rest \<and>
           filter outside_call (tr @ [Respond 200]) = filter outside_call tr"
proof -
  from processBuildRequest_extends[of w body "tr @ [Respond 200]"]
  obtain ev where "processBuildRequest w body (tr @ [Respond 200]) = (tr @ [Respond 200]) @ ev"
    by blast
  with assms show ?thesis
    by (simp add: api_build_def strict_equal_env)
qed

theorem acknowledged_before_processing_witness:
  "secret (demo_request (JNum 1)) = env_value (Some (lit ''s3cret'')) \<and>
   (\<exists>rest. api_build (demo_world 0 False) (Some (lit ''s3cret'')) (demo_request (JNum 1)) [] =
      Respond 200 # rest)"
proof -
  have h: "secret (demo_request (JNum 1)) = env_value (Some (lit ''s3cret''))"
    by (simp add: demo_request_def env_value_def)
  from acknowledged_before_processing[OF h, of "demo_world 0 False" "[]"] h show ?thesis by simp
qed

text \<open>
  C9. The handler processes a request exactly when its \<open>secret\<close> is the same value as
  the configured one, with no conversion between types: a request is rejected when the
  two differ, a number is never equal to a configured string, and when no secret is
  configured a request without the field is accepted and processed.
\<close>

theorem secret_check_is_strict_equality:
  "(secret body = env_value student_secret \<longrightarrow>
      api_build w student_secret body tr = processBuildRequest w body (tr @ [Respond 200])) \<and>
   (secret body \<noteq> env_value student_secret \<longrightarrow>
      api_build w student_secret body tr = tr @ [Console InvalidSecret, Respond 403]) \<and>
   (secret body = JNum n \<longrightarrow>
      api_build w student_secret body tr = tr @ [Console InvalidSecret, Respond 403]) \<and>
   (secret body = JUndefined \<longrightarrow>
      api_build w None body tr = processBuildRequest w body (tr @ [Respond 200]))"
  by (cases student_secret)
    (simp_all add: api_build_def env_value_def strict_equal_undefined strict_equal_str)

theorem secret_check_is_strict_equality_witness:
  "secret ((demo_request (JNum 1))\<lparr>secret := JUndefined\<rparr>) = JUndefined \<and>
   api_build (demo_world 0 False) None ((demo_request (JNum 1))\<lparr>secret := JUndefined\<rparr>) [] =
     processBuildRequest (demo_world 0 False) ((demo_request (JNum 1))\<lparr>secret := JUndefined\<rparr>)
       [Respond 200] \<and>
   secret ((demo_request (JNum 1))\<lparr>secret := JNum 7\<rparr>) = JNum 7 \<and>
   api_build (demo_world 0 False) (Some (lit ''7'')) ((demo_request (JNum 1))\<lparr>secret := JNum 7\<rparr>) [] =
     [Console InvalidSecret, Respond 403]"
  using secret_check_is_strict_equality[of "(demo_request (JNum 1))\<lparr>secret := JUndefined\<rparr>"
      None "demo_world 0 False" "[]" 0]
    secret_check_is_strict_equality[of "(demo_request (JNum 1))\<lparr>secret := JNum 7\<rparr>"
      "Some (lit ''7'')" "demo_world 0 False" "[]" 7]
  by simp

text \<open>
  C10. In round 1, when \<open>checks\<close> is absent or the url of the first attachment has no
  comma, the run consists of the identity lookup and the logged error: a TypeError
  whenever the lookup resolves. No repository is created, no file is written, Pages is
  not enabled, nothing is generated and no notification is posted.
\<close>

theorem round1_malformed_request_aborts:
  assumes "request.round body = JNum 1"
    and "request.checks body = None \<or>
         (\<exists>a rest. request.attachments body = Some (a # rest) \<and> 0x2C \<notin> set (url a))"
  shows "(\<exists>e. processBuildRequest w body tr =
               tr @ [Call GetAuthenticated, Console (BuildError e)] \<and>
             (getAuthenticated w (tr @ [Call GetAuthenticated]) \<noteq> None \<longrightarrow> e = TypeError)) \<and>
         filter repo_write (processBuildRequest w body tr) = filter repo_write tr \<and>
         filter generation (processBuildRequest w body tr) = filter generation tr \<and>
         filter notify_call (processBuildRequest w body tr) = filter notify_call tr"
proof (cases "getAuthenticated w (tr @ [Call GetAuthenticated])")
  case None
  then show ?thesis by (simp add: processBuildRequest_no_identity)
next
  case (Some login)
  have "round_steps w body login (tr @ [Call GetAuthenticated]) =
          (Inl TypeError, tr @ [Call GetAuthenticated])"
    using assms(1) round1_type_error[OF assms(2)] by (simp add: round_steps_def)
  from processBuildRequest_round_failed[OF Some this] Some show ?thesis by simp
qed

theorem round1_malformed_request_aborts_witness:
  "request.round ((demo_request (JNum 1))\<lparr>checks := None\<rparr>) = JNum 1 \<and>
   request.checks ((demo_request (JNum 1))\<lparr>checks := None\<rparr>) = None \<and>
   processBuildRequest (demo_world 0 False) ((demo_request (JNum 1))\<lparr>checks := None\<rparr>) [] =
     [Call GetAuthenticated, Console (BuildError TypeError)] \<and>
   request.attachments ((demo_request (JNum 1))
      \<lparr>attachments := Some [\<lparr> name = lit ''logo.png'', url = lit ''https://example.com/logo.png'' \<rparr>]\<rparr>) =
     Some [\<lparr> name = lit ''logo.png'', url = lit ''https://example.com/logo.png'' \<rparr>] \<and>
   0x2C \<notin> set (lit ''https://example.com/logo.png'') \<and>
   processBuildRequest (demo_world 0 False) ((demo_request (JNum 1))
      \<lparr>attachments := Some [\<lparr> name = lit ''logo.png'', url = lit ''https://example.com/logo.png'' \<rparr>]\<rparr>) [] =
     [Call GetAuthenticated, Console (BuildError TypeError)]"
proof -
  let ?w = "demo_world 0 False"
  let ?b = "(demo_request (JNum 1))\<lparr>checks := None\<rparr>"
  let ?a = "\<lparr> name = lit ''logo.png'', url = lit ''https://example.com/logo.png'' \<rparr>"
  let ?b2 = "(demo_request (JNum 1))\<lparr>attachments := Some [?a]\<rparr>"
  have r: "request.round ?b = JNum 1" "request.round ?b2 = JNum 1"
    by (simp_all add: demo_request_def)
  have c: "request.checks ?b = None \<or>
         (\<exists>a rest. request.attachments ?b = Some (a # rest) \<and> 0x2C \<notin> set (url a))"
    by simp
  have n: "0x2C \<notin> set (lit ''https://example.com/logo.png'')"
    by (simp add: lit_def)
  then have c2: "request.checks ?b2 = None \<or>
         (\<exists>a rest. request.attachments ?b2 = Some (a # rest) \<and> 0x2C \<notin> set (url a))"
    by simp
  have g: "getAuthenticated ?w ([] @ [Call GetAuthenticated]) \<noteq> None"
    by (simp add: demo_world_def)
  from round1_malformed_request_aborts[OF r(1) c, of ?w "[]"] g
  have 1: "processBuildRequest ?w ?b [] = [Call GetAuthenticated, Console (BuildError TypeError)]"
    by auto
  from round1_malformed_request_aborts[OF r(2) c2, of ?w "[]"] g
  have 2: "processBuildRequest ?w ?b2 [] = [Call GetAuthenticated, Console (BuildError TypeError)]"
    by auto
  from 1 2 r n show ?thesis by simp
qed

text \<open>
  C8. When \<open>round\<close> is neither the number 1 nor the number 2, nothing is generated and
  nothing is written. Provided the identity lookup and the commit read resolve, the run
  is the identity lookup, the read of the latest commit of \<^verbatim>\<open>heads/main\<close> in the
  repository named by \<open>task\<close>, and the notification delivery, whose payload carries the
  \<open>round\<close> of the request as it came; at least one post is made.
\<close>

theorem unknown_round_still_notifies:
  assumes "request.round body \<noteq> JNum 1" and "request.round body \<noteq> JNum 2"
  shows "filter generation (processBuildRequest w body tr) = filter generation tr \<and>
         filter repo_write (processBuildRequest w body tr) = filter repo_write tr \<and>
         (\<forall>login commitSha.
            getAuthenticated w (tr @ [Call GetAuthenticated]) = Some login \<longrightarrow>
            getCommit w (tr @ [Call GetAuthenticated,
              Call (GetCommit login (request.task body) (lit ''heads/main''))]) = Some commitSha \<longrightarrow>
            (\<exists>k\<le>4.
               processBuildRequest w body tr =
                 tr @ [Call GetAuthenticated,
                       Call (GetCommit login (request.task body) (lit ''heads/main''))] @
                 failed_attempts (evaluation_url body)
                   (notificationPayload body login commitSha) k @
                 (if k < 4
                  then [Call (AxiosPost (evaluation_url body)
                          (notificationPayload body login commitSha))]
                  else [Console NotifyFailed])) \<and>
            Call (AxiosPost (evaluation_url body) (notificationPayload body login commitSha))
              \<in> set (processBuildRequest w body tr) \<and>
            payload.round (notificationPayload body login commitSha) = request.round body)"
proof -
  have steps: "round_steps w body login t = (Inr (), t)" for login t
    using assms by (simp add: round_steps_def strict_equal_num succeed_def)
  have quiet: "filter P (processBuildRequest w body tr) = filter P tr"
    if P: "\<And>e. after_round e \<Longrightarrow> \<not> P e" "\<not> P (Call GetAuthenticated)" for P
  proof (cases "getAuthenticated w (tr @ [Call GetAuthenticated])")
    case None
    then show ?thesis using P by (simp add: processBuildRequest_no_identity)
  next
    case (Some login)
    from post_round_only_after_round[of w body login "tr @ [Call GetAuthenticated]"]
    obtain ev where "processBuildRequest w body tr = (tr @ [Call GetAuthenticated]) @ ev"
      "\<forall>e\<in>set ev. after_round e"
      unfolding processBuildRequest_after_round[OF Some steps] by blast
    moreover from this P have "filter P ev = []" by (auto simp: filter_empty_conv)
    ultimately show ?thesis using P by simp
  qed
  have gen: "filter generation (processBuildRequest w body tr) = filter generation tr"
    by (rule quiet) (auto elim: after_round.elims)
  have rw: "filter repo_write (processBuildRequest w body tr) = filter repo_write tr"
    by (rule quiet) (auto elim: after_round.elims)
  have notif: "(\<exists>k\<le>4.
               processBuildRequest w body tr =
                 tr @ [Call GetAuthenticated,
                       Call (GetCommit login (request.task body) (lit ''heads/main''))] @
                 failed_attempts (evaluation_url body)
                   (notificationPayload body login commitSha) k @
                 (if k < 4
                  then [Call (AxiosPost (evaluation_url body)
                          (notificationPayload body login commitSha))]
                  else [Console NotifyFailed])) \<and>
            Call (AxiosPost (evaluation_url body) (notificationPayload body login commitSha))
              \<in> set (processBuildRequest w body tr) \<and>
            payload.round (notificationPayload body login commitSha) = request.round body"
    if login: "getAuthenticated w (tr @ [Call GetAuthenticated]) = Some login"
      and sha: "getCommit w (tr @ [Call GetAuthenticated,
              Call (GetCommit login (request.task body) (lit ''heads/main''))]) = Some commitSha"
    for login commitSha
  proof -
    let ?d = "evaluation_url body" and ?p = "notificationPayload body login commitSha"
    from sha have "getCommit w ((tr @ [Call GetAuthenticated]) @
        [Call (GetCommit login (request.task body) (lit ''heads/main''))]) = Some commitSha"
      by simp
    from post_round_shape[OF this] assms(1) obtain k where k: "k \<le> 4"
      "post_round w body login (tr @ [Call GetAuthenticated]) =
         (Inr (), tr @ [Call GetAuthenticated,
                       Call (GetCommit login (request.task body) (lit ''heads/main''))] @
                  failed_attempts ?d ?p k @
                  (if k < 4 then [Call (AxiosPost ?d ?p)] else [Console NotifyFailed]))"
      by auto
    then have eq: "processBuildRequest w body tr =
         tr @ [Call GetAuthenticated,
               Call (GetCommit login (request.task body) (lit ''heads/main''))] @
         failed_attempts ?d ?p k @
         (if k < 4 then [Call (AxiosPost ?d ?p)] else [Console NotifyFailed])"
      by (simp add: processBuildRequest_after_round[OF login steps])
    have "Call (AxiosPost ?d ?p) \<in> set (failed_attempts ?d ?p k @
            (if k < 4 then [Call (AxiosPost ?d ?p)] else [Console NotifyFailed]))"
    proof (cases "k < 4")
      case True
      then show ?thesis by simp
    next
      case False
      then obtain n where "k = Suc n" by (cases k) auto
      with False show ?thesis by (simp add: failed_attempts_Suc failed_attempt_def)
    qed
    with eq have "Call (AxiosPost ?d ?p) \<in> set (processBuildRequest w body tr)" by simp
    moreover have "payload.round ?p = request.round body"
      by (simp add: notificationPayload_def)
    ultimately show ?thesis using k(1) eq by blast
  qed
  from gen rw notif show ?thesis by blast
qed

theorem unknown_round_still_notifies_witness:
  "request.round (demo_request (JStr (lit ''1''))) \<noteq> JNum 1 \<and>
   request.round (demo_request (JStr (lit ''1''))) \<noteq> JNum 2 \<and>
   getAuthenticated (demo_world 0 False) [Call GetAuthenticated] = Some (lit ''octo'') \<and>
   getCommit (demo_world 0 False)
     [Call GetAuthenticated, Call (GetCommit (lit ''octo'') (lit ''todo-app'') (lit ''heads/main''))] =
     Some (lit ''9f2c1a'') \<and>
   Call (AxiosPost (lit ''https://example.com/notify'')
     (notificationPayload (demo_request (JStr (lit ''1''))) (lit ''octo'') (lit ''9f2c1a'')))
     \<in> set (processBuildRequest (demo_world 0 False) (demo_request (JStr (lit ''1''))) []) \<and>
   payload.round (notificationPayload (demo_request (JStr (lit ''1''))) (lit ''octo'') (lit ''9f2c1a'')) =
     JStr (lit ''1'')"
proof -
  let ?b = "demo_request (JStr (lit ''1''))"
  have r: "request.round ?b \<noteq> JNum 1" "request.round ?b \<noteq> JNum 2"
    by (simp_all add: demo_request_def)
  have t: "request.task ?b = lit ''todo-app''" "evaluation_url ?b = lit ''https://example.com/notify''"
    "request.round ?b = JStr (lit ''1'')"
    by (simp_all add: demo_request_def)
  have g: "getAuthenticated (demo_world 0 False) [Call GetAuthenticated] = Some (lit ''octo'')"
    "getCommit (demo_world 0 False)
     [Call GetAuthenticated, Call (GetCommit (lit ''octo'') (lit ''todo-app'') (lit ''heads/main''))] =
     Some (lit ''9f2c1a'')"
    by (simp_all add: demo_world_def)
  from unknown_round_still_notifies[OF r, of "demo_world 0 False" "[]"] g r t
  show ?thesis by simp
qed

text \<open>
  C7. Once the round has completed, the next call reads the commit \<^verbatim>\<open>heads/main\<close> of
  the repository \<open>task\<close> of the authenticated owner. When that read gives \<open>commitSha\<close>,
  the rest of the run is a wait of 5000 ms in round 1 and no wait otherwise, followed by
  the notification delivery to \<open>evaluation_url\<close>, every post of which carries the payload
  made of \<open>email\<close>, \<open>task\<close>, \<open>round\<close> and \<open>nonce\<close> of the request, the repository URL,
  \<open>commitSha\<close> and the Pages URL computed from owner and task.
\<close>

theorem post_round_reports:
  assumes "getAuthenticated w (tr @ [Call GetAuthenticated]) = Some login"
    and "round_steps w body login (tr @ [Call GetAuthenticated]) = (Inr (), tr1)"
  shows "prefix (tr1 @ [Call (GetCommit login (request.task body) (lit ''heads/main''))])
           (processBuildRequest w body tr) \<and>
         (\<forall>commitSha.
            getCommit w (tr1 @ [Call (GetCommit login (request.task body) (lit ''heads/main''))]) =
              Some commitSha \<longrightarrow>
            (\<exists>k\<le>4.
               processBuildRequest w body tr =
                 tr1 @ [Call (GetCommit login (request.task body) (lit ''heads/main''))] @
                 (if request.round body = JNum 1 then [SetTimeout 5000] else []) @
                 failed_attempts (evaluation_url body)
                   \<lparr> payload.email = request.email body,
                     payload.task = JStr (request.task body),
                     payload.round = request.round body,
                     payload.nonce = request.nonce body,
                     repo_url = lit ''https://github.com/'' @ login @ lit ''/'' @ request.task body,
                     commit_sha = commitSha,
                     pages_url = lit ''https://'' @ login @ lit ''.github.io/'' @
                                 request.task body @ lit ''/'' \<rparr> k @
                 (if k < 4
                  then [Call (AxiosPost (evaluation_url body)
                    \<lparr> payload.email = request.email body,
                      payload.task = JStr (request.task body),
                      payload.round = request.round body,
                      payload.nonce = request.nonce body,
                      repo_url = lit ''https://github.com/'' @ login @ lit ''/'' @ request.task body,
                      commit_sha = commitSha,
                      pages_url = lit ''https://'' @ login @ lit ''.github.io/'' @
                                  request.task body @ lit ''/'' \<rparr>)]
                  else [Console NotifyFailed])))"
proof -
  let ?c = "GetCommit login (request.task body) (lit ''heads/main'')"
  note run = processBuildRequest_after_round[OF assms]
  have pre: "prefix (tr1 @ [Call ?c]) (processBuildRequest w body tr)"
  proof (cases "getCommit w (tr1 @ [Call ?c])")
    case None
    then show ?thesis
      unfolding run by (simp add: post_round_def act_defs)
  next
    case (Some commitSha)
    from post_round_shape[OF this] obtain k where
      "post_round w body login tr1 =
         (Inr (), tr1 @ [Call ?c] @
            (if request.round body = JNum 1 then [SetTimeout 5000] else []) @
            failed_attempts (evaluation_url body) (notificationPayload body login commitSha) k @
            (if k < 4
             then [Call (AxiosPost (evaluation_url body) (notificationPayload body login commitSha))]
             else [Console NotifyFailed]))"
      by blast
    then show ?thesis
      unfolding run by (simp add: prefix_def)
  qed
  have post: "\<exists>k\<le>4.
      processBuildRequest w body tr =
        tr1 @ [Call ?c] @
        (if request.round body = JNum 1 then [SetTimeout 5000] else []) @
        failed_attempts (evaluation_url body) (notificationPayload body login commitSha) k @
        (if k < 4
         then [Call (AxiosPost (evaluation_url body) (notificationPayload body login commitSha))]
         else [Console NotifyFailed])"
    if "getCommit w (tr1 @ [Call ?c]) = Some commitSha" for commitSha
  proof -
    from post_round_shape[OF that] obtain k where "k \<le> 4"
      "post_round w body login tr1 =
         (Inr (), tr1 @ [Call ?c] @
            (if request.round body = JNum 1 then [SetTimeout 5000] else []) @
            failed_attempts (evaluation_url body) (notificationPayload body login commitSha) k @
            (if k < 4
             then [Call (AxiosPost (evaluation_url body) (notificationPayload body login commitSha))]
             else [Console NotifyFailed]))"
      by blast
    then show ?thesis
      unfolding run by (intro exI[of _ k]) simp
  qed
  from pre post show ?thesis
    unfolding notificationPayload_def repoUrl_def pagesUrl_def by blast
qed

theorem post_round_reports_witness:
  "getAuthenticated (demo_world 0 False) ([] @ [Call GetAuthenticated]) = Some (lit ''octo'') \<and>
   round_steps (demo_world 0 False) (demo_request (JNum 1)) (lit ''octo'') ([] @ [Call GetAuthenticated]) =
     (Inr (), snd (round_steps (demo_world 0 False) (demo_request (JNum 1)) (lit ''octo'')
        ([] @ [Call GetAuthenticated]))) \<and>
   getCommit (demo_world 0 False)
     (snd (round_steps (demo_world 0 False) (demo_request (JNum 1)) (lit ''octo'')
        ([] @ [Call GetAuthenticated])) @
      [Call (GetCommit (lit ''octo'') (request.task (demo_request (JNum 1))) (lit ''heads/main''))]) =
     Some (lit ''9f2c1a'') \<and>
   prefix
     (snd (round_steps (demo_world 0 False) (demo_request (JNum 1)) (lit ''octo'')
        ([] @ [Call GetAuthenticated])) @
      [Call (GetCommit (lit ''octo'') (request.task (demo_request (JNum 1))) (lit ''heads/main''))])
     (processBuildRequest (demo_world 0 False) (demo_request (JNum 1)) []) \<and>
   SetTimeout 5000 \<in> set (processBuildRequest (demo_world 0 False) (demo_request (JNum 1)) [])"
proof -
  let ?w = "demo_world 0 False" and ?b = "demo_request (JNum 1)"
  let ?t1 = "snd (round_steps ?w ?b (lit ''octo'') ([] @ [Call GetAuthenticated]))"
  have a: "getAuthenticated ?w ([] @ [Call GetAuthenticated]) = Some (lit ''octo'')"
    by (simp add: demo_world_def)
  note b = demo_round_steps1[of 0 "lit ''octo''" "[] @ [Call GetAuthenticated]"]
  have c: "getCommit ?w (?t1 @ [Call (GetCommit (lit ''octo'') (request.task ?b) (lit ''heads/main''))]) =
      Some (lit ''9f2c1a'')"
    by (simp add: demo_world_def)
  have r: "request.round ?b = JNum 1"
    by (simp add: demo_request_def)
  note t = post_round_reports[OF a b]
  from t have p: "prefix
     (?t1 @ [Call (GetCommit (lit ''octo'') (request.task ?b) (lit ''heads/main''))])
     (processBuildRequest ?w ?b [])" by (rule conjunct1)
  from t c obtain k where
    "processBuildRequest ?w ?b [] =
       ?t1 @ [Call (GetCommit (lit ''octo'') (request.task ?b) (lit ''heads/main''))] @
       (if request.round ?b = JNum 1 then [SetTimeout 5000] else []) @
       failed_attempts (evaluation_url ?b)
         \<lparr> payload.email = request.email ?b,
           payload.task = JStr (request.task ?b),
           payload.round = request.round ?b,
           payload.nonce = request.nonce ?b,
           repo_url = lit ''https://github.com/'' @ lit ''octo'' @ lit ''/'' @ request.task ?b,
           commit_sha = lit ''9f2c1a'',
           pages_url = lit ''https://'' @ lit ''octo'' @ lit ''.github.io/'' @
                       request.task ?b @ lit ''/'' \<rparr> k @
       (if k < 4
        then [Call (AxiosPost (evaluation_url ?b)
          \<lparr> payload.email = request.email ?b,
            payload.task = JStr (request.task ?b),
            payload.round = request.round ?b,
            payload.nonce = request.nonce ?b,
            repo_url = lit ''https://github.com/'' @ lit ''octo'' @ lit ''/'' @ request.task ?b,
            commit_sha = lit ''9f2c1a'',
            pages_url = lit ''https://'' @ lit ''octo'' @ lit ''.github.io/'' @
                        request.task ?b @ lit ''/'' \<rparr>)]
        else [Console NotifyFailed])"
    by blast
  then have "SetTimeout 5000 \<in> set (processBuildRequest ?w ?b [])"
    by (simp only: r if_True set_append) simp
  with a b c p show ?thesis by (simp only: simp_thms)
qed

text \<open>
  C2. In round 2, when the identity lookup resolves and the read of \<^verbatim>\<open>index.html\<close> gives
  a file, the generation call is made with model \<^verbatim>\<open>gemini-pro\<close> and a prompt that
  contains the decoded content of the file and the brief. When the generation resolves,
  the next call writes \<^verbatim>\<open>index.html\<close> with the \<open>sha\<close> of the file that was read; when
  that write is rejected, the run ends with the logged error and no notification post.
\<close>

theorem round2_revises_with_token:
  assumes "request.round body = JNum 2"
    and "getAuthenticated w (tr @ [Call GetAuthenticated]) = Some login"
    and "getContent w (tr @ [Call GetAuthenticated,
           Call (GetContent login (request.task body) (lit ''index.html''))]) = Some existingFile"
  shows "sublist (base64_decode w (content existingFile))
           (revisionPrompt (base64_decode w (content existingFile)) (request.brief body)) \<and>
         sublist (request.brief body)
           (revisionPrompt (base64_decode w (content existingFile)) (request.brief body)) \<and>
         prefix
           (tr @ [Call GetAuthenticated,
                  Call (GetContent login (request.task body) (lit ''index.html'')),
                  Call (GenerateContent (lit ''gemini-pro'')
                    (revisionPrompt (base64_decode w (content existingFile)) (request.brief body)))])
           (processBuildRequest w body tr) \<and>
         (\<forall>html.
            generateContent w
              (tr @ [Call GetAuthenticated,
                     Call (GetContent login (request.task body) (lit ''index.html'')),
                     Call (GenerateContent (lit ''gemini-pro'')
                       (revisionPrompt (base64_decode w (content existingFile))
                          (request.brief body)))]) = Some html \<longrightarrow>
            prefix
              (tr @ [Call GetAuthenticated,
                     Call (GetContent login (request.task body) (lit ''index.html'')),
                     Call (GenerateContent (lit ''gemini-pro'')
                       (revisionPrompt (base64_decode w (content existingFile))
                          (request.brief body))),
                     Call (CreateOrUpdateFileContents login (request.task body) (lit ''index.html'')
                       (lit ''Feat: Update application based on round 2 brief'')
                       (base64_encode w (strip_fence html)) (Some (sha existingFile)))])
              (processBuildRequest w body tr) \<and>
            (\<not> createOrUpdateFileContents w
              (tr @ [Call GetAuthenticated,
                     Call (GetContent login (request.task body) (lit ''index.html'')),
                     Call (GenerateContent (lit ''gemini-pro'')
                       (revisionPrompt (base64_decode w (content existingFile))
                          (request.brief body))),
                     Call (CreateOrUpdateFileContents login (request.task body) (lit ''index.html'')
                       (lit ''Feat: Update application based on round 2 brief'')
                       (base64_encode w (strip_fence html)) (Some (sha existingFile)))]) \<longrightarrow>
             processBuildRequest w body tr =
               tr @ [Call GetAuthenticated,
                     Call (GetContent login (request.task body) (lit ''index.html'')),
                     Call (GenerateContent (lit ''gemini-pro'')
                       (revisionPrompt (base64_decode w (content existingFile))
                          (request.brief body))),
                     Call (CreateOrUpdateFileContents login (request.task body) (lit ''index.html'')
                       (lit ''Feat: Update application based on round 2 brief'')
                       (base64_encode w (strip_fence html)) (Some (sha existingFile))),
                     Console (BuildError (Rejected
                       (CreateOrUpdateFileContents login (request.task body) (lit ''index.html'')
                          (lit ''Feat: Update application based on round 2 brief'')
                          (base64_encode w (strip_fence html)) (Some (sha existingFile)))))] \<and>
             filter notify_call (processBuildRequest w body tr) = filter notify_call tr))"
proof -
  let ?t0 = "tr @ [Call GetAuthenticated]"
  let ?rd = "Call (GetContent login (request.task body) (lit ''index.html''))"
  let ?p = "revisionPrompt (base64_decode w (content existingFile)) (request.brief body)"
  let ?g = "Call (GenerateContent (lit ''gemini-pro'') ?p)"
  let ?uc = "\<lambda>html. CreateOrUpdateFileContents login (request.task body) (lit ''index.html'')
                       (lit ''Feat: Update application based on round 2 brief'')
                       (base64_encode w (strip_fence html)) (Some (sha existingFile))"
  let ?t2 = "tr @ [Call GetAuthenticated, ?rd, ?g]"
  have steps: "round_steps w body login ?t0 = round2 w body login ?t0"
    using assms(1) by (simp add: round_steps_def strict_equal_num)
  have content: "getContent w (?t0 @ [?rd]) = Some existingFile"
    using assms(3) by simp
  have after: "prefix t (processBuildRequest w body tr)"
    if "round2 w body login ?t0 = (r, t1)" "prefix t t1" for r t t1
  proof (cases r)
    case (Inl e)
    with that steps processBuildRequest_round_failed[OF assms(2), of body e t1]
    show ?thesis by (auto simp: prefix_def)
  next
    case (Inr u)
    with that steps processBuildRequest_after_round[OF assms(2), of body t1]
      post_round_only_after_round[of w body login t1]
    show ?thesis by (auto simp: prefix_def)
  qed
  have gen_none: "round2 w body login ?t0 = (Inl (Rejected (GenerateContent (lit ''gemini-pro'') ?p)), ?t2)"
    if "generateContent w ?t2 = None"
    using that content by (simp add: round2_def act_defs)
  have gen_some: "round2 w body login ?t0 =
      (if createOrUpdateFileContents w (?t2 @ [Call (?uc html)])
       then (Inr (), ?t2 @ [Call (?uc html)])
       else (Inl (Rejected (?uc html)), ?t2 @ [Call (?uc html)]))"
    if "generateContent w ?t2 = Some html" for html
    using that content by (simp add: round2_def act_defs)
  have gen_some': "\<exists>r. round2 w body login ?t0 = (r, ?t2 @ [Call (?uc html)])"
    if "generateContent w ?t2 = Some html" for html
    using gen_some[OF that] by (cases "createOrUpdateFileContents w (?t2 @ [Call (?uc html)])") auto
  have p1: "prefix ?t2 (processBuildRequest w body tr)"
  proof (cases "generateContent w ?t2")
    case None
    from after[OF gen_none[OF None]] show ?thesis by simp
  next
    case (Some html)
    from gen_some'[OF Some] obtain r where
      "round2 w body login ?t0 = (r, ?t2 @ [Call (?uc html)])" by blast
    from after[OF this, of ?t2] show ?thesis by simp
  qed
  have p2: "prefix (?t2 @ [Call (?uc html)]) (processBuildRequest w body tr) \<and>
      (\<not> createOrUpdateFileContents w (?t2 @ [Call (?uc html)]) \<longrightarrow>
         processBuildRequest w body tr =
           ?t2 @ [Call (?uc html), Console (BuildError (Rejected (?uc html)))] \<and>
         filter notify_call (processBuildRequest w body tr) = filter notify_call tr)"
    if g: "generateContent w ?t2 = Some html" for html
  proof -
    from gen_some'[OF g] obtain r where
      "round2 w body login ?t0 = (r, ?t2 @ [Call (?uc html)])" by blast
    from after[OF this, of "?t2 @ [Call (?uc html)]"]
    have a: "prefix (?t2 @ [Call (?uc html)]) (processBuildRequest w body tr)" by simp
    have b: "processBuildRequest w body tr =
           ?t2 @ [Call (?uc html), Console (BuildError (Rejected (?uc html)))] \<and>
         filter notify_call (processBuildRequest w body tr) = filter notify_call tr"
      if "\<not> createOrUpdateFileContents w (?t2 @ [Call (?uc html)])"
    proof -
      from that gen_some[OF g] steps
      have "round_steps w body login ?t0 = (Inl (Rejected (?uc html)), ?t2 @ [Call (?uc html)])"
        by simp
      from processBuildRequest_round_failed[OF assms(2) this] show ?thesis by simp
    qed
    from a b show ?thesis by blast
  qed
  from p1 p2 revisionPrompt_original[of "base64_decode w (content existingFile)" "request.brief body"]
    revisionPrompt_brief[of "request.brief body" "base64_decode w (content existingFile)"]
  show ?thesis by simp
qed

theorem round2_revises_with_token_witness:
  "request.round (demo_request (JNum 2)) = JNum 2 \<and>
   getAuthenticated (demo_world 0 True) ([] @ [Call GetAuthenticated]) = Some (lit ''octo'') \<and>
   getContent (demo_world 0 True)
     ([] @ [Call GetAuthenticated,
        Call (GetContent (lit ''octo'') (request.task (demo_request (JNum 2))) (lit ''index.html''))]) =
     Some \<lparr> content = lit ''PHA+b2xkPC9wPg=='', sha = lit ''3b18e5'' \<rparr> \<and>
   processBuildRequest (demo_world 0 True) (demo_request (JNum 2)) [] =
     [Call GetAuthenticated,
      Call (GetContent (lit ''octo'') (lit ''todo-app'') (lit ''index.html'')),
      Call (GenerateContent (lit ''gemini-pro'')
        (revisionPrompt (lit ''decoded:'' @ lit ''PHA+b2xkPC9wPg=='') (lit ''Build a todo list''))),
      Call (CreateOrUpdateFileContents (lit ''octo'') (lit ''todo-app'') (lit ''index.html'')
        (lit ''Feat: Update application based on round 2 brief'')
        (lit ''encoded:'' @ strip_fence (lit ''```html<p>hi</p>```'')) (Some (lit ''3b18e5''))),
      Console (BuildError (Rejected
        (CreateOrUpdateFileContents (lit ''octo'') (lit ''todo-app'') (lit ''index.html'')
          (lit ''Feat: Update application based on round 2 brief'')
          (lit ''encoded:'' @ strip_fence (lit ''```html<p>hi</p>```'')) (Some (lit ''3b18e5'')))))] \<and>
   filter notify_call (processBuildRequest (demo_world 0 True) (demo_request (JNum 2)) []) = []"
proof -
  let ?w = "demo_world 0 True" and ?b = "demo_request (JNum 2)"
  have r: "request.round ?b = JNum 2"
    by (simp add: demo_request_def)
  have a: "getAuthenticated ?w ([] @ [Call GetAuthenticated]) = Some (lit ''octo'')"
    by (simp add: demo_world_def)
  have c: "getContent ?w
     ([] @ [Call GetAuthenticated,
        Call (GetContent (lit ''octo'') (request.task ?b) (lit ''index.html''))]) =
     Some \<lparr> content = lit ''PHA+b2xkPC9wPg=='', sha = lit ''3b18e5'' \<rparr>"
    by (simp add: demo_world_def)
  from round2_revises_with_token[OF r a c] r a c show ?thesis
    by (simp add: demo_world_def demo_request_def)
qed




end
